theory Spec2Isabelle
  imports Main "HOL-Library.Char_ord" "HOL-Library.List_Lexorder" "HOL-Library.Multiset"
begin

section \<open>B.L.I.N.K: the event log aggregator\<close>

text \<open>
  The analytics of \<^verbatim>\<open>BLINK.py\<close> read the frame returned by \<^verbatim>\<open>get_logs()\<close> after
  \<^verbatim>\<open>pd.to_datetime\<close> has converted its \<^verbatim>\<open>ts\<close> column. A converted column has one
  dtype: tz-naive (\<^verbatim>\<open>datetime64[ns]\<close>) when the stored texts carry no UTC offset, which
  is what \<^verbatim>\<open>datetime.utcnow().isoformat()\<close> writes at every call site of
  \<^verbatim>\<open>add_log\<close>, or tz-aware UTC. A frame is therefore its rows together with that dtype.
  A point in time is its wall-clock reading in nanoseconds since 1970-01-01T00:00:00,
  an unbounded integer; a calendar date is a day number, so that
  \<^verbatim>\<open>d + timedelta(days=1)\<close> is \<open>d + 1\<close>. Only the columns the analytics read are kept.
\<close>

record log_row =
  habit_id :: int
  ts :: int

record frame =
  tz_aware :: bool
  rows :: "log_row list"

text \<open>A pandas \<^verbatim>\<open>Timestamp\<close>, as an index label: tz-naive or tz-aware (UTC).\<close>

record timestamp =
  aware :: bool
  nanos :: int

definition ns_per_day :: int where
  "ns_per_day = 86400000000000"

text \<open>\<^verbatim>\<open>Timestamp.date()\<close>: the calendar day of a reading, as a day number.\<close>

definition date :: "int \<Rightarrow> int" where
  "date t = t div ns_per_day"

subsection \<open>\<^verbatim>\<open>calc_streaks\<close>\<close>










subsection \<open>\<^verbatim>\<open>weekly_counts\<close>\<close>

text \<open>
  A \<^verbatim>\<open>Series\<close> is the list of its (label, value) pairs, its index labels being
  timestamps. Labels are compared as pandas compares them: a tz-naive label never equals
  a tz-aware one, which is equality of the record.
\<close>

type_synonym series = "(timestamp \<times> nat) list"

text \<open>\<^verbatim>\<open>Timestamp.normalize()\<close>: the reading's midnight, the time zone kept.\<close>

definition normalize :: "timestamp \<Rightarrow> timestamp" where
  "normalize t = t\<lparr>nanos := (nanos t div ns_per_day) * ns_per_day\<rparr>"

text \<open>\<^verbatim>\<open>pd.date_range(start=start, periods=periods, freq='D')\<close>\<close>

definition date_range :: "timestamp \<Rightarrow> nat \<Rightarrow> timestamp list" where
  "date_range start periods =
     map (\<lambda>i. start\<lparr>nanos := nanos start + int i * ns_per_day\<rparr>) [0..<periods]"

text \<open>
  \<^verbatim>\<open>df.set_index('ts').groupby(pd.Grouper(freq='D')).size()\<close>: one bin for each day from
  the first day with a row to the last, labelled by its midnight in the dtype of the
  \<^verbatim>\<open>ts\<close> column, holding the number of rows of that day.
\<close>

definition groupby_day_size :: "frame \<Rightarrow> series" where
  "groupby_day_size df =
     (let ds = map (\<lambda>r. date (ts r)) (rows df)
      in if ds = [] then []
         else map (\<lambda>d. (\<lparr>aware = tz_aware df, nanos = d * ns_per_day\<rparr>,
                          length (filter (\<lambda>r. date (ts r) = d) (rows df))))
                [Min (set ds) .. Max (set ds)])"

text \<open>\<^verbatim>\<open>s.reindex(idx, fill_value=fill)\<close>\<close>

definition reindex :: "series \<Rightarrow> timestamp list \<Rightarrow> nat \<Rightarrow> series" where
  "reindex s idx fill =
     map (\<lambda>l. (l, case map_of s l of Some c \<Rightarrow> c | None \<Rightarrow> fill)) idx"

text \<open>
  \<^verbatim>\<open>weekly_counts(df_logs, days=28)\<close>. The first argument is the clock read by
  \<^verbatim>\<open>pd.Timestamp.utcnow()\<close>, which returns a tz-aware (UTC) timestamp, so the labels
  of \<^verbatim>\<open>rng\<close> are tz-aware whatever the frame holds. \<^verbatim>\<open>days\<close> is a count of days.
\<close>

definition weekly_counts :: "int \<Rightarrow> frame \<Rightarrow> nat \<Rightarrow> series" where
  "weekly_counts utcnow df_logs days =
     (if rows df_logs = [] then []
      else
        let start = \<lparr>aware = True, nanos = utcnow - int days * ns_per_day\<rparr>;
            rng = date_range (normalize start) (days + 1);
            idx = rng;
            s = reindex (groupby_day_size df_logs) idx 0
        in map (\<lambda>(l, c). (normalize l, c)) s)"

section \<open>The storage accessor\<close>

text \<open>
  The two tables of \<^verbatim>\<open>init_db\<close>, in insertion order, with the counters SQLite keeps
  for \<^verbatim>\<open>AUTOINCREMENT\<close> keys. Text columns are strings, compared as SQLite's default
  collation compares them, byte by byte; a character stands for a code point below 256.
\<close>

record habit =
  h_id :: int
  h_name :: string
  h_category :: string
  h_target :: int
  h_color :: string
  h_created_at :: string

record log =
  l_id :: int
  l_habit_id :: int
  l_ts :: string
  l_note :: "string option"

record db =
  habits :: "habit list"
  logs :: "log list"
  habits_seq :: int
  logs_seq :: int

definition init_db :: db where
  "init_db = \<lparr>habits = [], logs = [], habits_seq = 0, logs_seq = 0\<rparr>"

text \<open>
  The key an \<^verbatim>\<open>INTEGER PRIMARY KEY AUTOINCREMENT\<close> column gives a new row: one more
  than the largest key the table has ever held.
\<close>

definition autoincrement :: "int \<Rightarrow> int list \<Rightarrow> int" where
  "autoincrement seq ids = fold max ids seq + 1"

text \<open>
  \<^verbatim>\<open>add_habit(name, category, target, color)\<close>; \<open>utcnow\<close> is the text of
  \<^verbatim>\<open>datetime.utcnow().isoformat()\<close>. The function has no \<^verbatim>\<open>return\<close>: its value is
  Python's \<^verbatim>\<open>None\<close>, the second component.
\<close>

definition add_habit ::
  "db \<Rightarrow> string \<Rightarrow> string \<Rightarrow> string \<Rightarrow> int \<Rightarrow> string \<Rightarrow> db \<times> int option" where
  "add_habit conn utcnow name category target color =
     (let new = autoincrement (habits_seq conn) (map h_id (habits conn))
      in (conn\<lparr>habits := habits conn @
                  [\<lparr>h_id = new, h_name = name, h_category = category, h_target = target,
                    h_color = color, h_created_at = utcnow\<rparr>],
               habits_seq := new\<rparr>,
          None))"

text \<open>\<^verbatim>\<open>SELECT * FROM habits ORDER BY id DESC\<close>\<close>

definition get_habits :: "db \<Rightarrow> habit list" where
  "get_habits conn = rev (sort_key h_id (habits conn))"

text \<open>\<^verbatim>\<open>add_log(habit_id, ts=None, note=None)\<close>\<close>

definition add_log :: "db \<Rightarrow> string \<Rightarrow> int \<Rightarrow> string option \<Rightarrow> string option \<Rightarrow> db \<times> int option" where
  "add_log conn utcnow hid ts_arg note =
     (let ts' = (case ts_arg of None \<Rightarrow> utcnow | Some t \<Rightarrow> t);
          new = autoincrement (logs_seq conn) (map l_id (logs conn))
      in (conn\<lparr>logs := logs conn @
                  [\<lparr>l_id = new, l_habit_id = hid, l_ts = ts', l_note = note\<rparr>],
               logs_seq := new\<rparr>,
          None))"

text \<open>A row of \<^verbatim>\<open>get_logs\<close>: the log's columns and \<^verbatim>\<open>h.name as habit_name\<close>.\<close>

record joined =
  j_id :: int
  j_habit_id :: int
  j_ts :: string
  j_note :: "string option"
  j_habit_name :: "string option"

definition join_row :: "log \<Rightarrow> string option \<Rightarrow> joined" where
  "join_row l n =
     \<lparr>j_id = l_id l, j_habit_id = l_habit_id l, j_ts = l_ts l, j_note = l_note l,
      j_habit_name = n\<rparr>"

text \<open>\<^verbatim>\<open>logs l LEFT JOIN habits h ON h.id=l.habit_id\<close>, in the order of the logs.\<close>

definition left_join :: "log list \<Rightarrow> habit list \<Rightarrow> joined list" where
  "left_join ls hs =
     concat (map (\<lambda>l. case filter (\<lambda>h. h_id h = l_habit_id l) hs of
                         [] \<Rightarrow> [join_row l None]
                       | ms \<Rightarrow> map (\<lambda>h. join_row l (Some (h_name h))) ms) ls)"

text \<open>
  \<^verbatim>\<open>ORDER BY ts DESC\<close>: descending by the stored text, rows of equal text in the order
  of the join.
\<close>

definition get_logs :: "db \<Rightarrow> joined list" where
  "get_logs conn = rev (sort_key j_ts (rev (left_join (logs conn) (habits conn))))"

subsection \<open>The habit form\<close>

text \<open>
  \<^verbatim>\<open>str.strip()\<close> removes leading and trailing whitespace: of the code points below
  256, those Python counts as whitespace.
\<close>

definition is_space :: "char \<Rightarrow> bool" where
  "is_space c =
     (let n = (of_char c :: nat)
      in (9 \<le> n \<and> n \<le> 13) \<or> (28 \<le> n \<and> n \<le> 32) \<or> n = 133 \<or> n = 160)"

definition strip :: "string \<Rightarrow> string" where
  "strip s = rev (dropWhile is_space (rev (dropWhile is_space s)))"

text \<open>
  What the form shows: \<^verbatim>\<open>st.error\<close> (the name is required) or \<^verbatim>\<open>st.success\<close>
  (the habit was created).
\<close>

datatype message = St_error | St_success

text \<open>
  The body of \<^verbatim>\<open>if submitted:\<close> in the form \<^verbatim>\<open>form_habit\<close>, on the values of its four
  widgets.
\<close>

definition form_habit ::
  "db \<Rightarrow> string \<Rightarrow> string \<Rightarrow> string \<Rightarrow> int \<Rightarrow> string \<Rightarrow> db \<times> message" where
  "form_habit conn utcnow name category target color =
     (if strip name = [] then (conn, St_error)
      else (fst (add_habit conn utcnow (strip name) (strip category) target color),
            St_success))"

section \<open>The aggregators on the frame of \<^verbatim>\<open>get_logs\<close>\<close>


subsection \<open>\<^verbatim>\<open>pd.to_datetime\<close> on the texts \<^verbatim>\<open>isoformat()\<close> writes\<close>












subsection \<open>The range checks\<close>




subsection \<open>The two calls\<close>




section \<open>Properties of the streak computation\<close>

subsection \<open>The backward loop\<close>


lemma run_exists:
  assumes "d \<in> set days"
  shows "\<exists>n. (\<forall>i<n. d - int i \<in> set days) \<and> d - int n \<notin> set days \<and> 1 \<le> n"
proof -
  have low: "Min (set days) \<le> d" using assms by simp
  have "d - int (nat (d - Min (set days)) + 1) < Min (set days)" using low by simp
  then have k: "d - int (nat (d - Min (set days)) + 1) \<notin> set days"
    using Min_le [of "set days"] by fastforce
  define n where "n = (LEAST k. d - int k \<notin> set days)"
  have n1: "d - int n \<notin> set days" unfolding n_def using k by (rule LeastI)
  have n2: "\<forall>i<n. d - int i \<in> set days"
    unfolding n_def using not_less_Least by blast
  have "n \<noteq> 0" using n1 assms by (cases n) auto
  then show ?thesis using n1 n2 by (intro exI [of _ n]) simp
qed


















subsection \<open>The current streak\<close>



subsection \<open>Consecutive days\<close>




subsection \<open>Bounds\<close>



subsection \<open>The length of the series\<close>

lemma length_weekly_counts:
  "rows df \<noteq> [] \<Longrightarrow> length (weekly_counts utcnow df days) = days + 1"
  by (simp add: weekly_counts_def reindex_def date_range_def Let_def)

lemma weekly_counts_empty: "rows df = [] \<Longrightarrow> weekly_counts utcnow df days = []"
  by (simp add: weekly_counts_def)

section \<open>Properties of the daily counts\<close>

lemma ns_per_day_pos: "0 < ns_per_day"
  by (simp add: ns_per_day_def)

lemma date_shift: "date (t - int n * ns_per_day) = date t - int n"
proof -
  have "ns_per_day \<noteq> 0" using ns_per_day_pos by simp
  then have "(t + (- int n) * ns_per_day) div ns_per_day = (- int n) + t div ns_per_day"
    by (rule div_mult_self1)
  then show ?thesis by (simp add: date_def)
qed

lemma day_label_div: "(a * ns_per_day + int i * ns_per_day) div ns_per_day = a + int i"
proof -
  have "(a * ns_per_day + int i * ns_per_day) = (a + int i) * ns_per_day"
    by (simp add: algebra_simps)
  then show ?thesis using ns_per_day_pos by simp
qed

text \<open>The labels of the window: day \<open>date utcnow - days + i\<close>, tz-aware.\<close>

lemma weekly_counts_unfold:
  assumes "rows df \<noteq> []"
  shows "weekly_counts utcnow df days
    = map (\<lambda>i. (\<lparr>aware = True, nanos = (date utcnow - int days + int i) * ns_per_day\<rparr>,
                 case map_of (groupby_day_size df)
                        \<lparr>aware = True, nanos = (date utcnow - int days + int i) * ns_per_day\<rparr>
                 of Some c \<Rightarrow> c | None \<Rightarrow> 0))
        [0..<days + 1]"
proof -
  have n: "\<And>i. (date utcnow - int days) * ns_per_day + int i * ns_per_day
      = (date utcnow - int days + int i) * ns_per_day"
    by (simp add: algebra_simps)
  have d: "(utcnow - int days * ns_per_day) div ns_per_day = date utcnow - int days"
    using date_shift [of utcnow days] by (simp add: date_def)
  show ?thesis
    using assms
    by (simp add: weekly_counts_def reindex_def date_range_def normalize_def Let_def d n
        day_label_div o_def del: upt_Suc)
qed

lemma groupby_keys_tz: "l \<in> fst ` set (groupby_day_size df) \<Longrightarrow> aware l = tz_aware df"
  by (auto simp: groupby_day_size_def Let_def split: if_splits)

lemma map_of_keyed:
  "inj k \<Longrightarrow> map_of (map (\<lambda>d. (k d, v d)) xs) (k d0)
     = (if d0 \<in> set xs then Some (v d0) else None)"
  by (induction xs) (auto simp: inj_def)

lemma day_label_inj: "inj (\<lambda>d. \<lparr>aware = tz, nanos = d * ns_per_day\<rparr>)"
  using ns_per_day_pos by (auto simp: inj_def)

lemma groupby_lookup:
  "(case map_of (groupby_day_size df) \<lparr>aware = tz_aware df, nanos = d * ns_per_day\<rparr>
    of Some c \<Rightarrow> c | None \<Rightarrow> 0)
   = length (filter (\<lambda>r. date (ts r) = d) (rows df))"
proof (cases "rows df = []")
  case True
  then show ?thesis by (simp add: groupby_day_size_def)
next
  case False
  let ?ds = "map (\<lambda>r. date (ts r)) (rows df)"
  let ?v = "\<lambda>d. length (filter (\<lambda>r. date (ts r) = d) (rows df))"
  have g: "groupby_day_size df
      = map (\<lambda>d. (\<lparr>aware = tz_aware df, nanos = d * ns_per_day\<rparr>, ?v d))
          [Min (set ?ds) .. Max (set ?ds)]"
    using False by (simp add: groupby_day_size_def Let_def)
  have look: "map_of (groupby_day_size df) \<lparr>aware = tz_aware df, nanos = d * ns_per_day\<rparr>
      = (if d \<in> set [Min (set ?ds) .. Max (set ?ds)] then Some (?v d) else None)"
    unfolding g by (rule map_of_keyed [OF day_label_inj])
  show ?thesis
  proof (cases "d \<in> set [Min (set ?ds) .. Max (set ?ds)]")
    case True
    then show ?thesis using look by simp
  next
    case out: False
    have "d \<notin> set ?ds"
    proof
      assume "d \<in> set ?ds"
      then have "Min (set ?ds) \<le> d \<and> d \<le> Max (set ?ds)" by simp
      then show False using out by simp
    qed
    then have "filter (\<lambda>r. date (ts r) = d) (rows df) = []"
      by (auto simp: filter_empty_conv)
    then show ?thesis using look out by simp
  qed
qed

lemma upt_2: "[0..<Suc (Suc 0)] = [0, 1]" "[0..<2] = [0, 1]"
  by code_simp+

lemma upt_3: "[0..<Suc 2] = [0, 1, 2]" "[0..<3] = [0, 1, 2]"
  by code_simp+

text \<open>
  On a frame whose \<^verbatim>\<open>ts\<close> column is tz-aware the window is dense and each day's value
  is the number of rows of that day.
\<close>

theorem weekly_counts_aware:
  assumes "tz_aware df" "rows df \<noteq> []"
  shows "weekly_counts utcnow df days
    = map (\<lambda>i. (\<lparr>aware = True, nanos = (date utcnow - int days + int i) * ns_per_day\<rparr>,
                 length (filter (\<lambda>r. date (ts r) = date utcnow - int days + int i) (rows df))))
        [0..<days + 1]"
  using groupby_lookup [of df] assms(1)
  by (simp add: weekly_counts_unfold [OF assms(2)] del: upt_Suc)

theorem weekly_counts_aware_witness:
  "tz_aware \<lparr>tz_aware = True, rows =
        [\<lparr>habit_id = 1, ts = 1704101400000000000\<rparr>,
         \<lparr>habit_id = 1, ts = 1704218400000000000\<rparr>,
         \<lparr>habit_id = 2, ts = 1704179700000000000\<rparr>]\<rparr>
   \<and> rows \<lparr>tz_aware = True, rows =
        [\<lparr>habit_id = 1, ts = 1704101400000000000\<rparr>,
         \<lparr>habit_id = 1, ts = 1704218400000000000\<rparr>,
         \<lparr>habit_id = 2, ts = 1704179700000000000\<rparr>]\<rparr> \<noteq> []
   \<and> weekly_counts 1704225600000000000
     \<lparr>tz_aware = True, rows =
        [\<lparr>habit_id = 1, ts = 1704101400000000000\<rparr>,
         \<lparr>habit_id = 1, ts = 1704218400000000000\<rparr>,
         \<lparr>habit_id = 2, ts = 1704179700000000000\<rparr>]\<rparr> 2
   = [(\<lparr>aware = True, nanos = 1703980800000000000\<rparr>, 0),
      (\<lparr>aware = True, nanos = 1704067200000000000\<rparr>, 1),
      (\<lparr>aware = True, nanos = 1704153600000000000\<rparr>, 2)]"
proof -
  let ?df = "\<lparr>tz_aware = True, rows =
        [\<lparr>habit_id = 1, ts = 1704101400000000000\<rparr>,
         \<lparr>habit_id = 1, ts = 1704218400000000000\<rparr>,
         \<lparr>habit_id = 2, ts = 1704179700000000000\<rparr>]\<rparr>"
  have a: "tz_aware ?df" and r: "rows ?df \<noteq> []" by simp_all
  show ?thesis
    using weekly_counts_aware [OF a r, of 1704225600000000000 2]
    by (simp add: date_def ns_per_day_def upt_3 del: upt_Suc)
qed

text \<open>
  On a frame whose \<^verbatim>\<open>ts\<close> column is tz-naive no label of the window, which is
  tz-aware, is a label of the grouped series: every value is the fill value 0.
\<close>

theorem weekly_counts_naive:
  assumes "\<not> tz_aware df" "rows df \<noteq> []"
  shows "weekly_counts utcnow df days
    = map (\<lambda>i. (\<lparr>aware = True, nanos = (date utcnow - int days + int i) * ns_per_day\<rparr>, 0))
        [0..<days + 1]"
proof -
  have "\<And>n. map_of (groupby_day_size df) \<lparr>aware = True, nanos = n\<rparr> = None"
  proof -
    fix n
    have "\<lparr>aware = True, nanos = n\<rparr> \<notin> fst ` set (groupby_day_size df)"
      using groupby_keys_tz [of "\<lparr>aware = True, nanos = n\<rparr>" df] assms(1) by auto
    then show "map_of (groupby_day_size df) \<lparr>aware = True, nanos = n\<rparr> = None"
      by (simp add: map_of_eq_None_iff)
  qed
  then show ?thesis by (simp add: weekly_counts_unfold [OF assms(2)] del: upt_Suc)
qed

theorem weekly_counts_naive_witness:
  "\<not> tz_aware \<lparr>tz_aware = False, rows = [\<lparr>habit_id = 1, ts = 1704218400000000000\<rparr>]\<rparr>
   \<and> rows \<lparr>tz_aware = False, rows = [\<lparr>habit_id = 1, ts = 1704218400000000000\<rparr>]\<rparr> \<noteq> []
   \<and> weekly_counts 1704225600000000000
        \<lparr>tz_aware = False, rows = [\<lparr>habit_id = 1, ts = 1704218400000000000\<rparr>]\<rparr> 1
      = [(\<lparr>aware = True, nanos = 1704067200000000000\<rparr>, 0),
         (\<lparr>aware = True, nanos = 1704153600000000000\<rparr>, 0)]"
proof -
  let ?df = "\<lparr>tz_aware = False, rows = [\<lparr>habit_id = 1, ts = 1704218400000000000\<rparr>]\<rparr>"
  have a: "\<not> tz_aware ?df" and r: "rows ?df \<noteq> []" by simp_all
  show ?thesis
    using weekly_counts_naive [OF a r, of 1704225600000000000 1]
    by (simp add: date_def ns_per_day_def upt_2 del: upt_Suc)
qed

text \<open>
  C2. On an empty frame \<open>weekly_counts\<close> returns the empty series. For one row logged
  today, with the tz-naive timestamp the application writes, and a window of 0 it returns
  a one-element series for today's date, whose count is 0 and not 1.
\<close>

theorem weekly_counts_entry_today:
  "weekly_counts 1704225600000000000 \<lparr>tz_aware = False, rows = []\<rparr> 28 = []
   \<and> weekly_counts 1704225600000000000
        \<lparr>tz_aware = False, rows = [\<lparr>habit_id = 1, ts = 1704218400000000000\<rparr>]\<rparr> 0
      = [(\<lparr>aware = True, nanos = 1704153600000000000\<rparr>, 0)]"
  by (simp add: weekly_counts_def date_range_def normalize_def reindex_def
      groupby_day_size_def date_def ns_per_day_def)

text \<open>
  C4. For three tz-naive rows, one logged yesterday and two today, and a window of 2,
  \<open>weekly_counts\<close> returns the three days ending today in ascending order, each with
  count 0: the window is right and the counts of the two days with rows are not.
\<close>

theorem weekly_counts_window_naive:
  "weekly_counts 1704225600000000000
     \<lparr>tz_aware = False, rows =
        [\<lparr>habit_id = 1, ts = 1704101400000000000\<rparr>,
         \<lparr>habit_id = 1, ts = 1704218400000000000\<rparr>,
         \<lparr>habit_id = 2, ts = 1704179700000000000\<rparr>]\<rparr> 2
   = [(\<lparr>aware = True, nanos = 1703980800000000000\<rparr>, 0),
      (\<lparr>aware = True, nanos = 1704067200000000000\<rparr>, 0),
      (\<lparr>aware = True, nanos = 1704153600000000000\<rparr>, 0)]"
  by code_simp

section \<open>Properties of the storage accessor\<close>

subsection \<open>Creating a habit\<close>

lemma strip_Nil_iff: "strip s = [] \<longleftrightarrow> (\<forall>c\<in>set s. is_space c)"
proof
  assume "strip s = []"
  then have a: "\<forall>c\<in>set (dropWhile is_space s). is_space c" by (simp add: strip_def)
  have "dropWhile is_space s = []"
  proof (rule ccontr)
    assume n: "dropWhile is_space s \<noteq> []"
    then have "\<not> is_space (hd (dropWhile is_space s))" by (rule hd_dropWhile)
    moreover have "hd (dropWhile is_space s) \<in> set (dropWhile is_space s)"
      using n by (rule hd_in_set)
    ultimately show False using a by blast
  qed
  then show "\<forall>c\<in>set s. is_space c" by (simp add: dropWhile_eq_Nil_conv)
next
  assume "\<forall>c\<in>set s. is_space c"
  then show "strip s = []" by (auto simp: strip_def dest: set_dropWhileD)
qed

text \<open>
  C3. When every character of the name is whitespace (the name is empty after
  trimming), the habit form shows the error and leaves the database as it was: no row
  is inserted. The empty name and the name of three spaces are two such names.
\<close>

theorem blank_name_rejected:
  "((\<forall>c\<in>set name. is_space c) \<longrightarrow>
      form_habit conn utcnow name category target color = (conn, St_error))
   \<and> form_habit conn utcnow '''' category target color = (conn, St_error)
   \<and> form_habit conn utcnow ''   '' category target color = (conn, St_error)"
proof (intro conjI impI)
  assume "\<forall>c\<in>set name. is_space c"
  then have "strip name = []" by (simp add: strip_Nil_iff)
  then show "form_habit conn utcnow name category target color = (conn, St_error)"
    by (simp add: form_habit_def)
next
  show "form_habit conn utcnow '''' category target color = (conn, St_error)"
    by (simp add: form_habit_def strip_def)
next
  show "form_habit conn utcnow ''   '' category target color = (conn, St_error)"
    by (simp add: form_habit_def strip_def is_space_def)
qed

theorem blank_name_rejected_witness:
  "is_space (CHR 0x09) \<and> is_space (CHR '' '') \<and> is_space (CHR 0x0A)
   \<and> form_habit init_db ''2024-01-01T09:30:00'' [CHR 0x09, CHR '' '', CHR 0x0A] ''health'' 1
        ''#7c3aed'' = (init_db, St_error)"
proof -
  have s: "is_space (CHR 0x09)" "is_space (CHR '' '')" "is_space (CHR 0x0A)"
    by (simp_all add: is_space_def)
  then have h: "\<forall>c\<in>set [CHR 0x09, CHR '' '', CHR 0x0A]. is_space c" by simp
  show ?thesis
    using s h blank_name_rejected [of "[CHR 0x09, CHR '' '', CHR 0x0A]" init_db
        "''2024-01-01T09:30:00''" "''health''" 1 "''#7c3aed''"]
    by blast
qed

lemma fold_max_ge: "x \<in> set ids \<Longrightarrow> x \<le> fold max ids (seq :: int)"
proof (induction ids arbitrary: seq)
  case Nil
  then show ?case by simp
next
  case (Cons y ys)
  have mono: "\<And>a. a \<le> fold max ys a"
  proof -
    fix a :: int show "a \<le> fold max ys a"
      by (induction ys arbitrary: a) (auto intro: order_trans [OF max.cobounded2])
  qed
  show ?case
  proof (cases "x = y")
    case True
    then show ?thesis using mono [of "max y seq"] by simp
  next
    case False
    then show ?thesis using Cons by simp
  qed
qed

lemma autoincrement_fresh: "x \<in> set ids \<Longrightarrow> x < autoincrement seq ids"
  using fold_max_ge [of x ids seq] by (simp add: autoincrement_def)

lemma length_filter_get_habits:
  "length (filter P (get_habits conn)) = length (filter P (habits conn))"
proof -
  have "mset (filter P (get_habits conn)) = mset (filter P (habits conn))"
    by (simp add: get_habits_def)
  then show ?thesis by (metis size_mset)
qed

text \<open>
  C8, as \<open>add_habit\<close> does it. For a name that is not empty after trimming the habit form
  succeeds and appends one row, holding the trimmed name and the clock's reading as
  creation time; the row's identity is the new \<^verbatim>\<open>AUTOINCREMENT\<close> key, and exactly one row
  of \<open>get_habits\<close> carries it afterwards. \<open>add_habit\<close> itself returns \<^verbatim>\<open>None\<close>.
\<close>

theorem new_habit_listed_once:
  "strip name \<noteq> [] \<Longrightarrow>
   snd (form_habit conn utcnow name category target color) = St_success
   \<and> snd (add_habit conn utcnow (strip name) (strip category) target color) = None
   \<and> (\<exists>new. habits (fst (form_habit conn utcnow name category target color))
          = habits conn @ [\<lparr>h_id = new, h_name = strip name, h_category = strip category,
                            h_target = target, h_color = color, h_created_at = utcnow\<rparr>]
        \<and> length (filter (\<lambda>h. h_id h = new)
             (get_habits (fst (form_habit conn utcnow name category target color)))) = 1)"
proof (intro conjI)
  assume ne: "strip name \<noteq> []"
  let ?new = "autoincrement (habits_seq conn) (map h_id (habits conn))"
  show "snd (form_habit conn utcnow name category target color) = St_success"
    using ne by (simp add: form_habit_def)
  show "snd (add_habit conn utcnow (strip name) (strip category) target color) = None"
    by (simp add: add_habit_def Let_def)
  have hs: "habits (fst (form_habit conn utcnow name category target color))
      = habits conn @ [\<lparr>h_id = ?new, h_name = strip name, h_category = strip category,
                        h_target = target, h_color = color, h_created_at = utcnow\<rparr>]"
    using ne by (simp add: form_habit_def add_habit_def Let_def)
  have old: "filter (\<lambda>h. h_id h = ?new) (habits conn) = []"
  proof -
    have "\<And>h. h \<in> set (habits conn) \<Longrightarrow> h_id h < ?new"
      by (rule autoincrement_fresh) simp
    then show ?thesis by (force simp: filter_empty_conv)
  qed
  have "length (filter (\<lambda>h. h_id h = ?new)
      (get_habits (fst (form_habit conn utcnow name category target color)))) = 1"
    by (simp add: length_filter_get_habits hs old)
  then show "\<exists>new. habits (fst (form_habit conn utcnow name category target color))
          = habits conn @ [\<lparr>h_id = new, h_name = strip name, h_category = strip category,
                            h_target = target, h_color = color, h_created_at = utcnow\<rparr>]
        \<and> length (filter (\<lambda>h. h_id h = new)
             (get_habits (fst (form_habit conn utcnow name category target color)))) = 1"
    using hs by blast
qed

theorem new_habit_listed_once_witness:
  "strip '' Run '' \<noteq> []
   \<and> snd (form_habit init_db ''2024-01-01T09:30:00'' '' Run '' ''health'' 1 ''#7c3aed'')
       = St_success
   \<and> (\<exists>new. habits (fst (form_habit init_db ''2024-01-01T09:30:00'' '' Run '' ''health'' 1
                 ''#7c3aed''))
          = habits init_db @ [\<lparr>h_id = new, h_name = ''Run'', h_category = ''health'',
                            h_target = 1, h_color = ''#7c3aed'',
                            h_created_at = ''2024-01-01T09:30:00''\<rparr>]
        \<and> length (filter (\<lambda>h. h_id h = new)
             (get_habits (fst (form_habit init_db ''2024-01-01T09:30:00'' '' Run '' ''health'' 1
                 ''#7c3aed'')))) = 1)"
proof -
  have s: "strip '' Run '' = ''Run''" by (simp add: strip_def is_space_def)
  have c: "strip ''health'' = ''health''" by (simp add: strip_def is_space_def)
  have h: "strip '' Run '' \<noteq> []" by (simp add: s)
  show ?thesis
    using h new_habit_listed_once [OF h, of init_db "''2024-01-01T09:30:00''" "''health''" 1
        "''#7c3aed''"]
    by (simp only: s c) blast
qed

text \<open>
  C8 as stated fails: \<open>add_habit\<close> returns no identity, so there is none to look for in
  \<open>get_habits\<close>.
\<close>

theorem returned_identity_counterexample:
  "\<not> (\<exists>i. snd (add_habit init_db ''2024-01-01T09:30:00'' ''Run'' ''health'' 1 ''#7c3aed'')
            = Some i
          \<and> length (filter (\<lambda>h. h_id h = i)
               (get_habits (fst (add_habit init_db ''2024-01-01T09:30:00'' ''Run'' ''health'' 1
                  ''#7c3aed'')))) = 1)"
  by (simp add: add_habit_def Let_def)

subsection \<open>Creating a log entry\<close>

lemma in_set_get_logs: "set (get_logs conn) = set (left_join (logs conn) (habits conn))"
  by (simp add: get_logs_def)

text \<open>
  C6. \<open>add_log\<close> without a timestamp appends one row whose timestamp is the clock's
  reading, whatever the habit identity and whatever the habits table holds. When no
  habit has that identity the row is listed by \<open>get_logs\<close> with no habit name: an
  orphaned reference.
\<close>

theorem log_without_timestamp:
  "(\<exists>new. fst (add_log conn utcnow hid None note)
       = conn\<lparr>logs := logs conn @
                 [\<lparr>l_id = new, l_habit_id = hid, l_ts = utcnow, l_note = note\<rparr>],
              logs_seq := new\<rparr>)
   \<and> ((\<forall>h\<in>set (habits conn). h_id h \<noteq> hid) \<longrightarrow>
        (\<exists>new. \<lparr>j_id = new, j_habit_id = hid, j_ts = utcnow, j_note = note,
                 j_habit_name = None\<rparr>
           \<in> set (get_logs (fst (add_log conn utcnow hid None note)))))"
proof (intro conjI impI)
  show "\<exists>new. fst (add_log conn utcnow hid None note)
       = conn\<lparr>logs := logs conn @
                 [\<lparr>l_id = new, l_habit_id = hid, l_ts = utcnow, l_note = note\<rparr>],
              logs_seq := new\<rparr>"
    by (intro exI [of _ "autoincrement (logs_seq conn) (map l_id (logs conn))"])
      (simp add: add_log_def Let_def)
next
  assume orphan: "\<forall>h\<in>set (habits conn). h_id h \<noteq> hid"
  let ?new = "autoincrement (logs_seq conn) (map l_id (logs conn))"
  have f: "filter (\<lambda>h. h_id h = hid) (habits conn) = []"
    using orphan by (simp add: filter_empty_conv)
  have "\<lparr>j_id = ?new, j_habit_id = hid, j_ts = utcnow, j_note = note, j_habit_name = None\<rparr>
      \<in> set (get_logs (fst (add_log conn utcnow hid None note)))"
    by (simp add: in_set_get_logs add_log_def Let_def left_join_def join_row_def f)
  then show "\<exists>new. \<lparr>j_id = new, j_habit_id = hid, j_ts = utcnow, j_note = note,
                 j_habit_name = None\<rparr>
           \<in> set (get_logs (fst (add_log conn utcnow hid None note)))"
    by blast
qed

theorem log_without_timestamp_witness:
  "habits init_db = []
   \<and> (\<exists>new. \<lparr>j_id = new, j_habit_id = 42, j_ts = ''2024-01-01T09:30:00'', j_note = None,
                 j_habit_name = None\<rparr>
           \<in> set (get_logs (fst (add_log init_db ''2024-01-01T09:30:00'' 42 None None))))"
proof -
  have e: "habits init_db = []" by (simp add: init_db_def)
  then have h: "\<forall>h\<in>set (habits init_db). h_id h \<noteq> 42" by simp
  show ?thesis
    using e h log_without_timestamp [of init_db "''2024-01-01T09:30:00''" 42 None]
    by blast
qed

subsection \<open>Listing\<close>

lemma filter_key_distinct:
  "distinct (map f xs) \<Longrightarrow>
   filter (\<lambda>x. f x = k) xs = (case find (\<lambda>x. f x = k) xs of None \<Rightarrow> [] | Some x \<Rightarrow> [x])"
proof (induction xs)
  case Nil
  then show ?case by simp
next
  case (Cons x xs)
  show ?case
  proof (cases "f x = k")
    case True
    have "f x \<notin> f ` set xs" using Cons.prems by simp
    then have "\<forall>y\<in>set xs. f y \<noteq> k" using True by blast
    then have "filter (\<lambda>y. f y = k) xs = []" by (simp add: filter_empty_conv)
    then show ?thesis using True by simp
  next
    case False
    then show ?thesis using Cons by simp
  qed
qed

lemma left_join_distinct:
  assumes "distinct (map h_id hs)"
  shows "left_join ls hs
    = map (\<lambda>l. join_row l (map_option h_name (find (\<lambda>h. h_id h = l_habit_id l) hs))) ls"
proof -
  have "\<And>l. (case filter (\<lambda>h. h_id h = l_habit_id l) hs of
                [] \<Rightarrow> [join_row l None]
              | ms \<Rightarrow> map (\<lambda>h. join_row l (Some (h_name h))) ms)
          = [join_row l (map_option h_name (find (\<lambda>h. h_id h = l_habit_id l) hs))]"
    by (simp add: filter_key_distinct [OF assms] split: option.splits)
  then show ?thesis by (simp add: left_join_def)
qed

lemma sorted_desc_rev_sort_key:
  "sorted_wrt (\<lambda>a b. b \<le> a) (map f (rev (sort_key f xs)))"
proof -
  have "sorted (map f (sort_key f xs))" by (rule sorted_sort_key)
  then have "sorted_wrt (\<lambda>a b. b \<le> a) (rev (map f (sort_key f xs)))"
    by (simp only: sorted_wrt_rev)
  then show ?thesis by (simp only: rev_map)
qed

text \<open>
  C7. \<open>get_habits\<close> returns the habits, each once, in non-increasing order of identity.
  \<open>get_logs\<close> returns the rows of the left join of logs and habits in non-increasing
  order of the stored timestamp; when habit identities are distinct, the join has one
  row for each log, with the name of its habit or none.
\<close>

theorem listings_ordered:
  "sorted_wrt (\<lambda>a b. b \<le> a) (map h_id (get_habits conn))
   \<and> mset (get_habits conn) = mset (habits conn)
   \<and> sorted_wrt (\<lambda>a b. b \<le> a) (map j_ts (get_logs conn))
   \<and> mset (get_logs conn) = mset (left_join (logs conn) (habits conn))
   \<and> (distinct (map h_id (habits conn)) \<longrightarrow>
        left_join (logs conn) (habits conn)
          = map (\<lambda>l. join_row l
                   (map_option h_name (find (\<lambda>h. h_id h = l_habit_id l) (habits conn))))
              (logs conn))"
proof (intro conjI impI)
  show "sorted_wrt (\<lambda>a b. b \<le> a) (map h_id (get_habits conn))"
    unfolding get_habits_def by (rule sorted_desc_rev_sort_key)
  show "mset (get_habits conn) = mset (habits conn)" by (simp add: get_habits_def)
  show "sorted_wrt (\<lambda>a b. b \<le> a) (map j_ts (get_logs conn))"
    unfolding get_logs_def by (rule sorted_desc_rev_sort_key)
  show "mset (get_logs conn) = mset (left_join (logs conn) (habits conn))"
    by (simp add: get_logs_def)
next
  assume "distinct (map h_id (habits conn))"
  then show "left_join (logs conn) (habits conn)
          = map (\<lambda>l. join_row l
                   (map_option h_name (find (\<lambda>h. h_id h = l_habit_id l) (habits conn))))
              (logs conn)"
    by (rule left_join_distinct)
qed

theorem listings_ordered_witness:
  "distinct (map h_id (habits
      \<lparr>habits = [\<lparr>h_id = 1, h_name = ''Run'', h_category = ''health'', h_target = 1,
                   h_color = ''#7c3aed'', h_created_at = ''2024-01-01T09:00:00''\<rparr>],
       logs = [\<lparr>l_id = 1, l_habit_id = 1, l_ts = ''2024-01-01T09:30:00'', l_note = None\<rparr>,
               \<lparr>l_id = 2, l_habit_id = 7, l_ts = ''2024-01-02T18:00:00.250000'',
                l_note = Some ''late''\<rparr>],
       habits_seq = 1, logs_seq = 2\<rparr>))
   \<and> map j_habit_name (get_logs
      \<lparr>habits = [\<lparr>h_id = 1, h_name = ''Run'', h_category = ''health'', h_target = 1,
                   h_color = ''#7c3aed'', h_created_at = ''2024-01-01T09:00:00''\<rparr>],
       logs = [\<lparr>l_id = 1, l_habit_id = 1, l_ts = ''2024-01-01T09:30:00'', l_note = None\<rparr>,
               \<lparr>l_id = 2, l_habit_id = 7, l_ts = ''2024-01-02T18:00:00.250000'',
                l_note = Some ''late''\<rparr>],
       habits_seq = 1, logs_seq = 2\<rparr>) = [None, Some ''Run'']
   \<and> sorted_wrt (\<lambda>a b. b \<le> a) (map j_ts (get_logs
      \<lparr>habits = [\<lparr>h_id = 1, h_name = ''Run'', h_category = ''health'', h_target = 1,
                   h_color = ''#7c3aed'', h_created_at = ''2024-01-01T09:00:00''\<rparr>],
       logs = [\<lparr>l_id = 1, l_habit_id = 1, l_ts = ''2024-01-01T09:30:00'', l_note = None\<rparr>,
               \<lparr>l_id = 2, l_habit_id = 7, l_ts = ''2024-01-02T18:00:00.250000'',
                l_note = Some ''late''\<rparr>],
       habits_seq = 1, logs_seq = 2\<rparr>))"
proof -
  let ?db = "\<lparr>habits = [\<lparr>h_id = 1, h_name = ''Run'', h_category = ''health'', h_target = 1,
                   h_color = ''#7c3aed'', h_created_at = ''2024-01-01T09:00:00''\<rparr>],
       logs = [\<lparr>l_id = 1, l_habit_id = 1, l_ts = ''2024-01-01T09:30:00'', l_note = None\<rparr>,
               \<lparr>l_id = 2, l_habit_id = 7, l_ts = ''2024-01-02T18:00:00.250000'',
                l_note = Some ''late''\<rparr>],
       habits_seq = 1, logs_seq = 2\<rparr>"
  have d: "distinct (map h_id (habits ?db))" by simp
  have n: "map j_habit_name (get_logs ?db) = [None, Some ''Run'']" by code_simp
  show ?thesis using d n listings_ordered [of ?db] by blast
qed

section \<open>Properties of the two calls\<close>

subsection \<open>Inside the ranges\<close>










subsection \<open>Concrete frames\<close>
















end
